theory Spec2Isabelle
  imports Complex_Main "HOL-Library.AList"
begin

section \<open>BLE advertising enhancements of the AirChainPay wallet\<close>

text \<open>
  A shallow embedding of \<^verbatim>\<open>src/bluetooth/BLEAdvertisingEnhancements.ts\<close>.
  JavaScript numbers that the code uses as integers (dBm, milliseconds, counters) are
  \<open>int\<close> or \<open>nat\<close>; an optional property is an \<open>option\<close>; strings are \<open>string\<close>;
  a \<^verbatim>\<open>Map\<close> is an association list in insertion order; the objects stored in the
  metrics map live in an explicit store, because the code mutates them in place.
\<close>

subsection \<open>Data model\<close>

text \<open>
  \<^verbatim>\<open>BLEPaymentPayload\<close> is imported from \<^verbatim>\<open>./BluetoothManager\<close>. The code reads two
  of its properties, \<^verbatim>\<open>walletAddress\<close> and \<^verbatim>\<open>timestamp\<close>, and only by truthiness, so
  each may be missing at run time.
\<close>

record BLEPaymentPayload =
  walletAddress :: "string option"
  timestamp :: "int option"

record AdvertisingConfig =
  deviceName :: string
  serviceUUID :: string
  manufacturerData :: "nat list"
  txPowerLevel :: int
  advertiseMode :: int
  includeDeviceName :: bool
  includeTxPowerLevel :: bool
  connectable :: bool
  timeout :: "int option"
  interval :: "int option"
  payload :: "BLEPaymentPayload option"

text \<open>The return type \<^verbatim>\<open>{ valid: boolean; errors: string[] }\<close> of the validator.\<close>

record ValidationResult =
  valid :: bool
  errors :: "string list"

subsection \<open>JavaScript truthiness\<close>

definition truthy_string :: "string option \<Rightarrow> bool" where
  "truthy_string v = (case v of None \<Rightarrow> False | Some s \<Rightarrow> s \<noteq> [])"

definition truthy_number :: "int option \<Rightarrow> bool" where
  "truthy_number v = (case v of None \<Rightarrow> False | Some n \<Rightarrow> n \<noteq> 0)"

subsection \<open>The regular expression of \<^verbatim>\<open>isValidUUID\<close>\<close>

text \<open>
  The pattern \<^verbatim>\<open>/^[0-9a-f]{8}-[0-9a-f]{4}-[0-9a-f]{4}-[0-9a-f]{4}-[0-9a-f]{12}$/i\<close>
  is a sequence of atoms, each repeated an exact number of times, anchored at both ends
  (no \<^verbatim>\<open>m\<close> flag, so \<^verbatim>\<open>$\<close> is the end of the input). An atom is a literal character
  or a class given by its ranges. Under the \<^verbatim>\<open>i\<close> flag two characters match when their
  canonical forms agree; the canonical form is the upper-case letter, and a code unit
  outside ASCII is never mapped into ASCII, so it matches no atom of this pattern.
\<close>

datatype atom = Lit char | Class "(char \<times> char) list"

definition canonicalize :: "char \<Rightarrow> char" where
  "canonicalize c =
     (let n = (of_char c :: nat)
      in if 97 \<le> n \<and> n \<le> 122 then char_of (n - 32) else c)"

definition chars_between :: "char \<Rightarrow> char \<Rightarrow> char list" where
  "chars_between lo hi = map char_of [of_char lo ..< Suc (of_char hi) :: nat]"

fun atom_matches :: "bool \<Rightarrow> atom \<Rightarrow> char \<Rightarrow> bool" where
  "atom_matches ignoreCase (Lit d) c =
     (if ignoreCase then canonicalize d = canonicalize c else d = c)"
| "atom_matches ignoreCase (Class ranges) c =
     list_ex (\<lambda>(lo, hi). list_ex (\<lambda>d.
        if ignoreCase then canonicalize d = canonicalize c else d = c)
        (chars_between lo hi)) ranges"

fun regex_test :: "bool \<Rightarrow> (atom \<times> nat) list \<Rightarrow> string \<Rightarrow> bool" where
  "regex_test ignoreCase [] s = (s = [])"
| "regex_test ignoreCase ((a, n) # rest) s =
     (n \<le> length s \<and> list_all (atom_matches ignoreCase a) (take n s)
      \<and> regex_test ignoreCase rest (drop n s))"

definition hexClass :: atom where
  "hexClass = Class [(CHR ''0'', CHR ''9''), (CHR ''a'', CHR ''f'')]"

definition uuidRegex :: "(atom \<times> nat) list" where
  "uuidRegex =
     [(hexClass, 8), (Lit CHR ''-'', 1), (hexClass, 4), (Lit CHR ''-'', 1),
      (hexClass, 4), (Lit CHR ''-'', 1), (hexClass, 4), (Lit CHR ''-'', 1),
      (hexClass, 12)]"

definition isValidUUID :: "string \<Rightarrow> bool" where
  "isValidUUID uuid = regex_test True uuidRegex uuid"

text \<open>
  The UUID shape in the words of the specification: five groups of 8, 4, 4, 4 and 12
  hexadecimal digits, lower or upper case, separated by hyphens.
\<close>

definition is_hex_digit :: "char \<Rightarrow> bool" where
  "is_hex_digit c = (c \<in> set ''0123456789abcdefABCDEF'')"

definition hex_group :: "nat \<Rightarrow> string \<Rightarrow> bool" where
  "hex_group n g = (length g = n \<and> list_all is_hex_digit g)"

definition uuid_shape :: "string \<Rightarrow> bool" where
  "uuid_shape s =
     (\<exists>g1 g2 g3 g4 g5.
        s = g1 @ ''-'' @ g2 @ ''-'' @ g3 @ ''-'' @ g4 @ ''-'' @ g5
        \<and> hex_group 8 g1 \<and> hex_group 4 g2 \<and> hex_group 4 g3
        \<and> hex_group 4 g4 \<and> hex_group 12 g5)"

text \<open>
  The interval rule in the words of the specification: an interval that is present lies
  in the range from 20 to 10240 milliseconds.
\<close>

definition interval_rule_violated :: "int option \<Rightarrow> bool" where
  "interval_rule_violated iv = (case iv of None \<Rightarrow> False | Some i \<Rightarrow> i < 20 \<or> i > 10240)"

subsection \<open>Configuration builder and validator\<close>

text \<open>
  \<^verbatim>\<open>JSON.stringify\<close> and the UTF-8 encoding of \<^verbatim>\<open>Buffer.from\<close> belong to the
  runtime, as does \<^verbatim>\<open>Platform.OS\<close>; the operations take them as a parameter. The
  values handed to \<^verbatim>\<open>JSON.stringify\<close> are a payload or the descriptor object built
  by the start operation.
\<close>

datatype json_input =
    PayloadObject BLEPaymentPayload
  | Descriptor (d_name: string) (d_serviceUUID: string) (d_type: string)
      (d_version: string) (d_timestamp: int)

record runtime =
  OS :: string
  JSON_stringify :: "json_input \<Rightarrow> string"

definition utf8_data :: "string \<Rightarrow> nat list" where
  "utf8_data s = map of_char s"

definition createPaymentAdvertisingConfig ::
  "runtime \<Rightarrow> string \<Rightarrow> string \<Rightarrow> BLEPaymentPayload \<Rightarrow> AdvertisingConfig" where
  "createPaymentAdvertisingConfig rt name uuid p =
     \<lparr> deviceName = name,
       serviceUUID = uuid,
       manufacturerData = utf8_data (JSON_stringify rt (PayloadObject p)),
       txPowerLevel = - 12,
       advertiseMode = 0,
       includeDeviceName = True,
       includeTxPowerLevel = True,
       connectable = True,
       timeout = Some 60000,
       interval = Some 100,
       payload = Some p \<rparr>"

definition createAdvertisingConfig :: "string \<Rightarrow> string \<Rightarrow> AdvertisingConfig" where
  "createAdvertisingConfig name uuid =
     \<lparr> deviceName = name,
       serviceUUID = uuid,
       manufacturerData = utf8_data ''AirChainPay'',
       txPowerLevel = - 12,
       advertiseMode = 0,
       includeDeviceName = True,
       includeTxPowerLevel = True,
       connectable = True,
       timeout = Some 0,
       interval = Some 100,
       payload = None \<rparr>"

text \<open>
  The validator pushes onto \<^verbatim>\<open>errors\<close> in source order; each \<^verbatim>\<open>if\<close> of the source
  is one optional message here.
\<close>

definition push_if :: "bool \<Rightarrow> string \<Rightarrow> string list" where
  "push_if b msg = (if b then [msg] else [])"

definition payload_errors :: "BLEPaymentPayload option \<Rightarrow> string list" where
  "payload_errors po =
     (case po of
        None \<Rightarrow> []
      | Some p \<Rightarrow>
          push_if (\<not> truthy_string (walletAddress p)) ''Payload wallet address is required''
          @ push_if (\<not> truthy_number (timestamp p)) ''Payload timestamp is required'')"

definition interval_out_of_range :: "int option \<Rightarrow> bool" where
  "interval_out_of_range iv =
     (case iv of None \<Rightarrow> False | Some i \<Rightarrow> i \<noteq> 0 \<and> (i < 20 \<or> i > 10240))"

definition validation_errors :: "AdvertisingConfig \<Rightarrow> string list" where
  "validation_errors config =
     push_if (deviceName config = []) ''Device name is required''
     @ push_if (serviceUUID config = []) ''Service UUID is required''
     @ push_if (\<not> isValidUUID (serviceUUID config)) ''Invalid service UUID format''
     @ push_if (txPowerLevel config < - 30 \<or> txPowerLevel config > 10)
         ''TX power level must be between -30 and 10 dBm''
     @ push_if (advertiseMode config < 0 \<or> advertiseMode config > 2)
         ''Advertise mode must be 0, 1, or 2''
     @ push_if (interval_out_of_range (interval config))
         ''Advertising interval must be between 20ms and 10240ms''
     @ payload_errors (payload config)"

definition validateAdvertisingConfig :: "AdvertisingConfig \<Rightarrow> ValidationResult" where
  "validateAdvertisingConfig config =
     (let errors = validation_errors config
      in \<lparr> valid = (length errors = 0), errors = errors \<rparr>)"

subsection \<open>Session tracker and radio driver\<close>

text \<open>
  The class keeps two maps. The values of \<^verbatim>\<open>metrics\<close> are objects: the map holds
  references, \<^verbatim>\<open>recordMetrics\<close> allocates a new object on each call, and the stop
  and restart operations write into the object that the map refers to. The store is the
  list of all objects allocated so far; a reference is an index into it.
\<close>

record AdvertisingMetrics =
  startTime :: int
  stopTime :: "int option"
  duration :: int
  success :: bool
  errorCount :: nat
  restartCount :: nat
  payloadTransmitted :: "bool option"

type_synonym ref = nat

text \<open>
  What a caught exception carries: an \<^verbatim>\<open>Error\<close> with its message, or any other
  value with its \<^verbatim>\<open>String(...)\<close> rendering. A driver call either resolves to a
  boolean or rejects.
\<close>

datatype thrown = ErrorInstance string | OtherValue string

datatype driver_result = Resolves bool | Rejects thrown

datatype driver_call = StartBroadcast string | StopBroadcast

text \<open>
  The driver is the caller's object; its answer may depend on the calls made so far.
\<close>

record Advertiser =
  startBroadcast :: "driver_call list \<Rightarrow> string \<Rightarrow> driver_result"
  stopBroadcast :: "driver_call list \<Rightarrow> driver_result"

text \<open>
  The state that the operations read and write: the two maps of the instance, the object
  store, the clock behind \<^verbatim>\<open>Date.now()\<close>, and the log of calls made to the driver.
  Within one operation the clock moves only by the backoff of the restart operation;
  between operations the caller may set it to any later time.
\<close>

record state =
  store :: "AdvertisingMetrics list"
  metrics :: "(string \<times> ref) list"
  restartAttempts :: "(string \<times> nat) list"
  now :: int
  calls :: "driver_call list"

definition maxRestartAttempts :: nat where
  "maxRestartAttempts = 3"

definition restartDelay :: int where
  "restartDelay = 2000"

definition initial_state :: "int \<Rightarrow> state" where
  "initial_state t =
     \<lparr> store = [], metrics = [], restartAttempts = [], now = t, calls = [] \<rparr>"

text \<open>The anonymous result type \<^verbatim>\<open>{ success: boolean; error?: string }\<close>.\<close>

record op_result =
  r_success :: bool
  r_error :: "string option"

definition error_message :: "thrown \<Rightarrow> string" where
  "error_message e = (case e of ErrorInstance m \<Rightarrow> m | OtherValue v \<Rightarrow> v)"

definition join :: "string \<Rightarrow> string list \<Rightarrow> string" where
  "join sep xs = (case xs of [] \<Rightarrow> [] | y # ys \<Rightarrow> foldl (\<lambda>acc x. acc @ sep @ x) y ys)"

definition recordMetrics ::
  "string \<Rightarrow> int \<Rightarrow> bool \<Rightarrow> string option \<Rightarrow> bool option \<Rightarrow> state \<Rightarrow> state" where
  "recordMetrics sessionId start ok err transmitted st =
     (let m = \<lparr> startTime = start,
                stopTime = None,
                duration = 0,
                success = ok,
                errorCount = (if truthy_string err then 1 else 0),
                restartCount = 0,
                payloadTransmitted = transmitted \<rparr>
      in st\<lparr> store := store st @ [m],
             metrics := AList.update sessionId (length (store st)) (metrics st) \<rparr>)"

definition startAdvertisingWithEnhancements ::
  "runtime \<Rightarrow> Advertiser \<Rightarrow> AdvertisingConfig \<Rightarrow> string \<Rightarrow> state \<Rightarrow> op_result \<times> state" where
  "startAdvertisingWithEnhancements rt advertiser config sessionId st =
     (let start = now st;
          validation = validateAdvertisingConfig config
      in if \<not> valid validation then
           (let err = ''Invalid advertising configuration: '' @ join '', '' (errors validation)
            in (\<lparr> r_success = False, r_error = Some err \<rparr>,
                recordMetrics sessionId start False (Some err) None st))
         else if OS rt \<noteq> ''android'' then
           (let err = ''BLE advertising is only supported on Android''
            in (\<lparr> r_success = False, r_error = Some err \<rparr>,
                recordMetrics sessionId start False (Some err) None st))
         else
           (let advertisingMessage =
                  (case payload config of
                     Some p \<Rightarrow> JSON_stringify rt (PayloadObject p)
                   | None \<Rightarrow> JSON_stringify rt
                       (Descriptor (deviceName config) (serviceUUID config)
                          ''AirChainPay'' ''1.0.0'' (now st)));
                st1 = st\<lparr> calls := calls st @ [StartBroadcast advertisingMessage] \<rparr>
            in case startBroadcast advertiser (calls st) advertisingMessage of
                 Resolves result \<Rightarrow>
                   if result then
                     (\<lparr> r_success = True, r_error = None \<rparr>,
                      recordMetrics sessionId start True None
                        (Some (payload config \<noteq> None)) st1)
                   else
                     (let err = ''Failed to start advertising - no result from startBroadcast''
                      in (\<lparr> r_success = False, r_error = Some err \<rparr>,
                          recordMetrics sessionId start False (Some err) None st1))
               | Rejects e \<Rightarrow>
                   (let errorMessage = error_message e
                    in (\<lparr> r_success = False, r_error = Some errorMessage \<rparr>,
                        recordMetrics sessionId start False (Some errorMessage) None st1))))"

text \<open>
  In \<^verbatim>\<open>stopAdvertisingWithEnhancements\<close> the awaited driver call is the first
  statement of the \<^verbatim>\<open>try\<close> block: when it rejects, control goes to \<^verbatim>\<open>catch\<close>
  and the rest of the block is skipped. The resolved value is bound to \<^verbatim>\<open>result\<close>
  and not read again.
\<close>

definition stopAdvertisingWithEnhancements ::
  "Advertiser \<Rightarrow> string \<Rightarrow> state \<Rightarrow> op_result \<times> state" where
  "stopAdvertisingWithEnhancements advertiser sessionId st =
     (let st1 = st\<lparr> calls := calls st @ [StopBroadcast] \<rparr>
      in case stopBroadcast advertiser (calls st) of
           Rejects e \<Rightarrow>
             (\<lparr> r_success = False, r_error = Some (error_message e) \<rparr>, st1)
         | Resolves result \<Rightarrow>
             (let st2 =
                    (case map_of (metrics st1) sessionId of
                       None \<Rightarrow> st1
                     | Some r \<Rightarrow>
                         st1\<lparr> store := (store st1)
                           [r := (store st1 ! r)
                              \<lparr> stopTime := Some (now st1),
                                duration := now st1 - startTime (store st1 ! r) \<rparr>] \<rparr>);
                  st3 = st2\<lparr> restartAttempts := AList.delete sessionId (restartAttempts st2) \<rparr>
              in (\<lparr> r_success = True, r_error = None \<rparr>, st3)))"

definition restartAdvertisingIfNeeded ::
  "runtime \<Rightarrow> Advertiser \<Rightarrow> AdvertisingConfig \<Rightarrow> string \<Rightarrow> state \<Rightarrow> bool \<times> state" where
  "restartAdvertisingIfNeeded rt advertiser config sessionId st =
     (let attempts = (case map_of (restartAttempts st) sessionId of
                        None \<Rightarrow> 0 | Some n \<Rightarrow> n)
      in if attempts \<ge> maxRestartAttempts then (False, st)
         else
           (let st1 = st\<lparr> restartAttempts :=
                         AList.update sessionId (attempts + 1) (restartAttempts st) \<rparr>;
                st2 = st1\<lparr> now := now st1 + restartDelay \<rparr>;
                (result, st3) =
                  startAdvertisingWithEnhancements rt advertiser config sessionId st2
            in if r_success result then
                 (case map_of (metrics st3) sessionId of
                    None \<Rightarrow> (True, st3)
                  | Some r \<Rightarrow>
                      (True, st3\<lparr> store := (store st3)
                         [r := (store st3 ! r)
                            \<lparr> restartCount := restartCount (store st3 ! r) + 1 \<rparr>] \<rparr>))
               else (False, st3)))"

text \<open>
  \<^verbatim>\<open>getAdvertisingMetrics\<close> hands out the stored object itself, that is its
  reference; \<^verbatim>\<open>getAllAdvertisingMetrics\<close> builds a new \<^verbatim>\<open>Map\<close> with the same
  entries, so the copy holds the same references. What a holder of references sees at a
  later time is read from the store of that time.
\<close>

definition getAdvertisingMetrics :: "string \<Rightarrow> state \<Rightarrow> ref option" where
  "getAdvertisingMetrics sessionId st = map_of (metrics st) sessionId"

definition getAllAdvertisingMetrics :: "state \<Rightarrow> (string \<times> ref) list" where
  "getAllAdvertisingMetrics st = metrics st"

definition deref :: "state \<Rightarrow> ref \<Rightarrow> AdvertisingMetrics option" where
  "deref st r = (if r < length (store st) then Some (store st ! r) else None)"

definition view :: "state \<Rightarrow> (string \<times> ref) list \<Rightarrow> (string \<times> AdvertisingMetrics option) list" where
  "view st snapshot = map (\<lambda>(k, r). (k, deref st r)) snapshot"

definition clearMetrics :: "string \<Rightarrow> state \<Rightarrow> state" where
  "clearMetrics sessionId st =
     st\<lparr> metrics := AList.delete sessionId (metrics st),
         restartAttempts := AList.delete sessionId (restartAttempts st) \<rparr>"

definition clearAllMetrics :: "state \<Rightarrow> state" where
  "clearAllMetrics st = st\<lparr> metrics := [], restartAttempts := [] \<rparr>"

record statistics =
  totalSessions :: nat
  successfulSessions :: nat
  failedSessions :: nat
  averageDuration :: real
  totalRestarts :: nat
  payloadTransmissions :: nat

definition getAdvertisingStatistics :: "state \<Rightarrow> statistics" where
  "getAdvertisingStatistics st =
     (let sessions = map (\<lambda>(k, r). store st ! r) (metrics st);
          successful = filter (\<lambda>s. success s) sessions;
          failed = filter (\<lambda>s. \<not> success s) sessions;
          restarts = foldl (\<lambda>sum s. sum + restartCount s) 0 sessions;
          transmissions = length (filter (\<lambda>s. payloadTransmitted s = Some True) sessions);
          average = (if length sessions > 0
                     then real_of_int (foldl (\<lambda>sum s. sum + duration s) 0 sessions)
                          / real (length sessions)
                     else 0)
      in \<lparr> totalSessions = length sessions,
           successfulSessions = length successful,
           failedSessions = length failed,
           averageDuration = average,
           totalRestarts = restarts,
           payloadTransmissions = transmissions \<rparr>)"

text \<open>
  Every reference held by the metrics map points into the store. The empty instance
  satisfies this and every operation keeps it.
\<close>

definition refs_valid :: "state \<Rightarrow> bool" where
  "refs_valid st = list_all (\<lambda>(k, r). r < length (store st)) (metrics st)"

subsection \<open>Observations used in the statements\<close>

text \<open>
  The number of \<^verbatim>\<open>startBroadcast\<close> calls in the driver log, the restart counter of a
  session as \<^verbatim>\<open>restartAdvertisingIfNeeded\<close> reads it (\<^verbatim>\<open>get(sessionId) || 0\<close>), the
  state in which the retried start runs (counter incremented, backoff elapsed), and a
  caller that invokes the restart operation \<open>n\<close> times in a row.
\<close>

fun is_start_call :: "driver_call \<Rightarrow> bool" where
  "is_start_call (StartBroadcast m) = True"
| "is_start_call StopBroadcast = False"

definition start_calls :: "state \<Rightarrow> nat" where
  "start_calls st = length (filter is_start_call (calls st))"

definition attempts_of :: "state \<Rightarrow> string \<Rightarrow> nat" where
  "attempts_of st sessionId =
     (case map_of (restartAttempts st) sessionId of None \<Rightarrow> 0 | Some n \<Rightarrow> n)"

definition backoff_state :: "string \<Rightarrow> state \<Rightarrow> state" where
  "backoff_state sessionId st =
     st\<lparr> restartAttempts :=
           AList.update sessionId (attempts_of st sessionId + 1) (restartAttempts st),
         now := now st + restartDelay \<rparr>"

fun restart_repeatedly ::
  "nat \<Rightarrow> runtime \<Rightarrow> Advertiser \<Rightarrow> AdvertisingConfig \<Rightarrow> string \<Rightarrow> state
     \<Rightarrow> bool list \<times> state" where
  "restart_repeatedly 0 rt advertiser config sessionId st = ([], st)"
| "restart_repeatedly (Suc n) rt advertiser config sessionId st =
     (let (b, st1) = restartAdvertisingIfNeeded rt advertiser config sessionId st;
          (bs, st2) = restart_repeatedly n rt advertiser config sessionId st1
      in (b # bs, st2))"

text \<open>A driver whose \<^verbatim>\<open>startBroadcast\<close> never resolves to \<open>true\<close>, whatever it is asked.\<close>

definition never_accepts :: "Advertiser \<Rightarrow> bool" where
  "never_accepts advertiser = (\<forall>h m. startBroadcast advertiser h m \<noteq> Resolves True)"

subsection \<open>Concrete inputs for the examples\<close>

definition sample_stringify :: "json_input \<Rightarrow> string" where
  "sample_stringify j =
     (case j of
        PayloadObject p \<Rightarrow>
          ''{payload:'' @ (case walletAddress p of None \<Rightarrow> [] | Some a \<Rightarrow> a) @ ''}''
      | Descriptor n u t v ts \<Rightarrow> ''{name:'' @ n @ '',serviceUUID:'' @ u @ '',type:'' @ t @ ''}'')"

definition android :: runtime where
  "android = \<lparr> OS = ''android'', JSON_stringify = sample_stringify \<rparr>"

definition ios :: runtime where
  "ios = \<lparr> OS = ''ios'', JSON_stringify = sample_stringify \<rparr>"

definition sample_uuid :: string where
  "sample_uuid = ''123e4567-e89b-12d3-a456-426614174000''"

definition sample_payload :: BLEPaymentPayload where
  "sample_payload = \<lparr> walletAddress = Some ''0xA11CE'', timestamp = Some 1700000000000 \<rparr>"

definition sample_config :: AdvertisingConfig where
  "sample_config = createPaymentAdvertisingConfig android ''Alice-Phone'' sample_uuid sample_payload"

definition accepting_driver :: Advertiser where
  "accepting_driver =
     \<lparr> startBroadcast = (\<lambda>h m. Resolves True), stopBroadcast = (\<lambda>h. Resolves True) \<rparr>"

definition declining_driver :: Advertiser where
  "declining_driver =
     \<lparr> startBroadcast = (\<lambda>h m. Resolves False), stopBroadcast = (\<lambda>h. Resolves False) \<rparr>"

definition throwing_driver :: Advertiser where
  "throwing_driver =
     \<lparr> startBroadcast = (\<lambda>h m. Rejects (ErrorInstance ''radio unavailable'')),
       stopBroadcast = (\<lambda>h. Rejects (ErrorInstance ''radio unavailable'')) \<rparr>"

definition nameless_config :: AdvertisingConfig where
  "nameless_config = sample_config\<lparr> deviceName := [] \<rparr>"

definition zero_interval_config :: AdvertisingConfig where
  "zero_interval_config = sample_config\<lparr> interval := Some 0 \<rparr>"

definition retried_state :: state where
  "retried_state = (initial_state 0)\<lparr> restartAttempts := [(''session-1'', 2)] \<rparr>"

definition advertising_state :: state where
  "advertising_state =
     snd (startAdvertisingWithEnhancements android accepting_driver sample_config ''session-1''
       (initial_state 1000))"

definition stopped_state :: state where
  "stopped_state =
     snd (stopAdvertisingWithEnhancements accepting_driver ''session-1''
       (advertising_state\<lparr> now := 4000 \<rparr>))"

definition exhausted_state :: state where
  "exhausted_state = (initial_state 0)\<lparr> restartAttempts := [(''session-1'', 3)] \<rparr>"

section \<open>Properties\<close>

subsection \<open>The UUID pattern\<close>

lemma chars_between_digits: "chars_between CHR ''0'' CHR ''9'' = ''0123456789''"
  by code_simp

lemma chars_between_a_f: "chars_between CHR ''a'' CHR ''f'' = ''abcdef''"
  by code_simp

lemma char_eq_code: "(c = d) = (of_char c = (of_char d :: nat))"
  by simp

lemma code_canonicalize:
  "(of_char (canonicalize c) :: nat) =
     (if 97 \<le> (of_char c :: nat) \<and> (of_char c :: nat) \<le> 122
      then of_char c - 32 else of_char c)"
proof -
  have "(of_char c :: nat) < 256" by simp
  then show ?thesis
    by (auto simp: canonicalize_def Let_def)
qed

lemma is_hex_digit_code:
  "is_hex_digit c \<longleftrightarrow>
     (48 \<le> (of_char c :: nat) \<and> (of_char c :: nat) \<le> 57)
     \<or> (97 \<le> (of_char c :: nat) \<and> (of_char c :: nat) \<le> 102)
     \<or> (65 \<le> (of_char c :: nat) \<and> (of_char c :: nat) \<le> 70)"
  unfolding is_hex_digit_def
  apply (simp add: char_eq_code [of c])
  apply arith
  done

lemma hexClass_matches: "atom_matches True hexClass c = is_hex_digit c"
  unfolding is_hex_digit_code hexClass_def
  apply (simp add: chars_between_digits chars_between_a_f
      char_eq_code [of "canonicalize _" "canonicalize c"] code_canonicalize)
  apply arith
  done

lemma hyphen_matches: "atom_matches True (Lit CHR ''-'') c = (c = CHR ''-'')"
  apply (simp add: char_eq_code [of "canonicalize _" "canonicalize c"] code_canonicalize)
  apply (simp add: char_eq_code [of c])
  apply arith
  done

lemma regex_test_step:
  "regex_test ic ((a, n) # rest) s \<longleftrightarrow>
     (\<exists>g r. s = g @ r \<and> length g = n \<and> list_all (atom_matches ic a) g
        \<and> regex_test ic rest r)"
proof
  assume "regex_test ic ((a, n) # rest) s"
  then have "s = take n s @ drop n s \<and> length (take n s) = n
      \<and> list_all (atom_matches ic a) (take n s) \<and> regex_test ic rest (drop n s)"
    by simp
  then show "\<exists>g r. s = g @ r \<and> length g = n \<and> list_all (atom_matches ic a) g
      \<and> regex_test ic rest r"
    by blast
next
  assume "\<exists>g r. s = g @ r \<and> length g = n \<and> list_all (atom_matches ic a) g
      \<and> regex_test ic rest r"
  then show "regex_test ic ((a, n) # rest) s"
    by auto
qed

lemma hyphen_group:
  "(length g = Suc 0 \<and> list_all (atom_matches True (Lit CHR ''-'')) g \<and> R)
     \<longleftrightarrow> (g = ''-'' \<and> R)"
  by (cases g) (auto simp: hyphen_matches simp del: atom_matches.simps)

lemma hex_group_matches:
  "(length g = n \<and> list_all (atom_matches True hexClass) g \<and> R) \<longleftrightarrow> (hex_group n g \<and> R)"
  by (simp add: hex_group_def hexClass_matches [abs_def] cong: list.pred_cong)

lemma regex_test_hex_groupI:
  "hex_group n g \<Longrightarrow> regex_test True rest r
     \<Longrightarrow> regex_test True ((hexClass, n) # rest) (g @ r)"
  using hex_group_matches [of g n True] by simp

lemma regex_test_hyphenI:
  "regex_test True rest r \<Longrightarrow> regex_test True ((Lit CHR ''-'', 1) # rest) (CHR ''-'' # r)"
  using hyphen_matches [of "CHR ''-''"] by simp

lemma regex_test_lastI:
  "hex_group n g \<Longrightarrow> regex_test True [(hexClass, n)] g"
  by (simp add: hex_group_def hexClass_matches del: atom_matches.simps cong: list.pred_cong)

lemma uuid_shape_imp_valid: "uuid_shape s \<Longrightarrow> isValidUUID s"
  unfolding isValidUUID_def uuidRegex_def uuid_shape_def
  apply (elim exE conjE)
  apply (simp only: append_Cons append_Nil)
  apply (intro regex_test_hex_groupI regex_test_hyphenI regex_test_lastI)
      apply assumption+
  done

lemma valid_imp_uuid_shape: "isValidUUID s \<Longrightarrow> uuid_shape s"
  unfolding isValidUUID_def uuidRegex_def uuid_shape_def
  apply (simp only: regex_test_step regex_test.simps(1) One_nat_def)
  apply (simp only: hyphen_group hex_group_matches)
  apply (elim exE conjE)
  apply (simp del: atom_matches.simps)
  apply blast
  done

lemma isValidUUID_shape: "isValidUUID s = uuid_shape s"
  using uuid_shape_imp_valid valid_imp_uuid_shape by blast

subsection \<open>The validator\<close>

lemma valid_iff:
  "valid (validateAdvertisingConfig config) = (errors (validateAdvertisingConfig config) = [])"
  by (simp add: validateAdvertisingConfig_def Let_def)

lemma errors_validate: "errors (validateAdvertisingConfig config) = validation_errors config"
  by (simp add: validateAdvertisingConfig_def Let_def)

lemma set_push_if: "set (push_if b msg) = (if b then {msg} else {})"
  by (simp add: push_if_def)

lemma length_push_if: "length (push_if b msg) = of_bool b"
  by (simp add: push_if_def)

lemma valid_sample_uuid: "isValidUUID sample_uuid"
  unfolding isValidUUID_shape uuid_shape_def sample_uuid_def
  apply (rule exI [of _ "''123e4567''"], rule exI [of _ "''e89b''"], rule exI [of _ "''12d3''"],
      rule exI [of _ "''a456''"], rule exI [of _ "''426614174000''"])
  apply (simp add: hex_group_def is_hex_digit_def)
  done

lemma invalid_short_uuid: "\<not> isValidUUID ''123e4567-e89b''"
  by (simp add: isValidUUID_def uuidRegex_def)

lemma invalid_empty_uuid: "\<not> isValidUUID []"
  by (simp add: isValidUUID_def uuidRegex_def)

lemma sample_config_fields:
  "deviceName sample_config = ''Alice-Phone''"
  "serviceUUID sample_config = sample_uuid"
  "txPowerLevel sample_config = - 12"
  "advertiseMode sample_config = 0"
  "interval sample_config = Some 100"
  "payload sample_config = Some sample_payload"
  by (simp_all add: sample_config_def createPaymentAdvertisingConfig_def)

lemma validation_errors_ok:
  assumes "deviceName config \<noteq> []" "isValidUUID (serviceUUID config)"
    "- 30 \<le> txPowerLevel config" "txPowerLevel config \<le> 10"
    "0 \<le> advertiseMode config" "advertiseMode config \<le> 2"
    "\<not> interval_out_of_range (interval config)"
    "payload_errors (payload config) = []"
  shows "validation_errors config = []"
proof -
  have "serviceUUID config \<noteq> []"
    using assms(2) invalid_empty_uuid by auto
  with assms show ?thesis
    by (simp add: validation_errors_def push_if_def)
qed

lemma sample_payload_errors: "payload_errors (Some sample_payload) = []"
  by (simp add: payload_errors_def sample_payload_def push_if_def truthy_string_def
      truthy_number_def)

lemma sample_config_valid: "validation_errors sample_config = []"
  by (rule validation_errors_ok)
    (simp_all add: sample_config_fields valid_sample_uuid interval_out_of_range_def
      sample_payload_errors)

lemma nameless_config_errors:
  "validateAdvertisingConfig nameless_config
     = \<lparr> valid = False, errors = [''Device name is required''] \<rparr>"
  using valid_sample_uuid
  by (simp add: validateAdvertisingConfig_def validation_errors_def push_if_def
      nameless_config_def sample_config_fields sample_uuid_def
      interval_out_of_range_def sample_payload_errors)

text \<open>
  \<^bold>\<open>C6\<close>, as stated, fails: an interval of \<open>0\<close> is present and outside the range, so
  the interval rule is violated, yet the validator reports nothing and answers valid.
\<close>

theorem validate_misses_zero_interval_counterexample:
  "interval zero_interval_config = Some 0
   \<and> interval_rule_violated (interval zero_interval_config)
   \<and> errors (validateAdvertisingConfig zero_interval_config) = []
   \<and> valid (validateAdvertisingConfig zero_interval_config)"
proof -
  have i: "interval zero_interval_config = Some 0"
    by (simp add: zero_interval_config_def)
  have "validation_errors zero_interval_config = []"
    by (rule validation_errors_ok)
      (simp_all add: zero_interval_config_def sample_config_fields valid_sample_uuid
        interval_out_of_range_def sample_payload_errors)
  with i show ?thesis
    by (simp add: validateAdvertisingConfig_def interval_rule_violated_def)
qed

text \<open>
  \<^bold>\<open>C6\<close>, amended. For every configuration the validator reports each violated rule,
  not only the first, with one exception: an interval of \<open>0\<close> is treated as absent, so
  the interval rule is reported when the interval is outside \<open>[20, 10240]\<close> and is not
  \<open>0\<close>. The rules are: empty device name; empty service id; service id not of the UUID
  shape; transmit power outside \<open>[-30, 10]\<close>; advertise mode outside \<open>[0, 2]\<close>; the
  interval rule; and, when a payload is attached, a wallet address that is missing or
  empty and a timestamp that is missing or \<open>0\<close>. The list has exactly one entry per
  reported rule, so an empty device name together with a transmit power out of range
  gives at least two messages. \<open>valid\<close> is false exactly when the list is non-empty. The
  validator is a function of the configuration alone.
\<close>

theorem validate_reports_violations:
  "(deviceName config = [] \<longrightarrow>
      ''Device name is required'' \<in> set (errors (validateAdvertisingConfig config)))
   \<and> (serviceUUID config = [] \<longrightarrow>
      ''Service UUID is required'' \<in> set (errors (validateAdvertisingConfig config)))
   \<and> (\<not> isValidUUID (serviceUUID config) \<longrightarrow>
      ''Invalid service UUID format'' \<in> set (errors (validateAdvertisingConfig config)))
   \<and> (txPowerLevel config < - 30 \<or> txPowerLevel config > 10 \<longrightarrow>
      ''TX power level must be between -30 and 10 dBm''
        \<in> set (errors (validateAdvertisingConfig config)))
   \<and> (advertiseMode config < 0 \<or> advertiseMode config > 2 \<longrightarrow>
      ''Advertise mode must be 0, 1, or 2'' \<in> set (errors (validateAdvertisingConfig config)))
   \<and> (interval_rule_violated (interval config) \<and> interval config \<noteq> Some 0 \<longrightarrow>
      ''Advertising interval must be between 20ms and 10240ms''
        \<in> set (errors (validateAdvertisingConfig config)))
   \<and> (\<forall>p. payload config = Some p
          \<and> (walletAddress p = None \<or> walletAddress p = Some []) \<longrightarrow>
      ''Payload wallet address is required'' \<in> set (errors (validateAdvertisingConfig config)))
   \<and> (\<forall>p. payload config = Some p \<and> (timestamp p = None \<or> timestamp p = Some 0) \<longrightarrow>
      ''Payload timestamp is required'' \<in> set (errors (validateAdvertisingConfig config)))
   \<and> length (errors (validateAdvertisingConfig config)) =
        of_bool (deviceName config = []) + of_bool (serviceUUID config = [])
        + of_bool (\<not> isValidUUID (serviceUUID config))
        + of_bool (txPowerLevel config < - 30 \<or> txPowerLevel config > 10)
        + of_bool (advertiseMode config < 0 \<or> advertiseMode config > 2)
        + of_bool (interval_rule_violated (interval config) \<and> interval config \<noteq> Some 0)
        + (case payload config of None \<Rightarrow> 0
           | Some p \<Rightarrow> of_bool (walletAddress p = None \<or> walletAddress p = Some [])
               + of_bool (timestamp p = None \<or> timestamp p = Some 0))
   \<and> (deviceName config = [] \<and> (txPowerLevel config < - 30 \<or> txPowerLevel config > 10) \<longrightarrow>
      2 \<le> length (errors (validateAdvertisingConfig config)))
   \<and> (valid (validateAdvertisingConfig config) = False
        \<longleftrightarrow> errors (validateAdvertisingConfig config) \<noteq> [])"
proof -
  have iv: "interval_out_of_range (interval config)
     \<longleftrightarrow> interval_rule_violated (interval config) \<and> interval config \<noteq> Some 0"
    by (auto simp: interval_out_of_range_def interval_rule_violated_def split: option.split)
  have ts: "\<not> truthy_string v \<longleftrightarrow> v = None \<or> v = Some []" for v
    by (simp add: truthy_string_def split: option.split)
  have tn: "\<not> truthy_number v \<longleftrightarrow> v = None \<or> v = Some 0" for v
    by (simp add: truthy_number_def split: option.split)
  have members:
    "\<And>b m. b \<Longrightarrow> m \<in> set (push_if b m)"
    by (simp add: push_if_def)
  have 1: "deviceName config = [] \<Longrightarrow>
      ''Device name is required'' \<in> set (validation_errors config)"
    unfolding validation_errors_def set_append by (intro UnI1 members)
  have 2: "serviceUUID config = [] \<Longrightarrow>
      ''Service UUID is required'' \<in> set (validation_errors config)"
    unfolding validation_errors_def set_append by (intro UnI2 UnI1 members)
  have 3: "\<not> isValidUUID (serviceUUID config) \<Longrightarrow>
      ''Invalid service UUID format'' \<in> set (validation_errors config)"
    unfolding validation_errors_def set_append
    by (rule UnI2, rule UnI2, rule UnI1, rule members)
  have 4: "txPowerLevel config < - 30 \<or> txPowerLevel config > 10 \<Longrightarrow>
      ''TX power level must be between -30 and 10 dBm'' \<in> set (validation_errors config)"
    unfolding validation_errors_def set_append
    by (rule UnI2, rule UnI2, rule UnI2, rule UnI1, rule members)
  have 5: "advertiseMode config < 0 \<or> advertiseMode config > 2 \<Longrightarrow>
      ''Advertise mode must be 0, 1, or 2'' \<in> set (validation_errors config)"
    unfolding validation_errors_def set_append
    by (rule UnI2, rule UnI2, rule UnI2, rule UnI2, rule UnI1, rule members)
  have 6: "interval_out_of_range (interval config) \<Longrightarrow>
      ''Advertising interval must be between 20ms and 10240ms'' \<in> set (validation_errors config)"
    unfolding validation_errors_def set_append
    by (rule UnI2, rule UnI2, rule UnI2, rule UnI2, rule UnI2, rule UnI1, rule members)
  have pay: "set (payload_errors (payload config)) \<subseteq> set (validation_errors config)"
    unfolding validation_errors_def set_append by blast
  have 7: "''Payload wallet address is required'' \<in> set (validation_errors config)"
    if "payload config = Some p" "walletAddress p = None \<or> walletAddress p = Some []" for p
  proof -
    have "''Payload wallet address is required'' \<in> set (payload_errors (payload config))"
      using that unfolding payload_errors_def ts by (simp add: members)
    with pay show ?thesis by blast
  qed
  have 8: "''Payload timestamp is required'' \<in> set (validation_errors config)"
    if "payload config = Some p" "timestamp p = None \<or> timestamp p = Some 0" for p
  proof -
    have "''Payload timestamp is required'' \<in> set (payload_errors (payload config))"
      using that unfolding payload_errors_def tn by (simp add: members)
    with pay show ?thesis by blast
  qed
  have count: "length (validation_errors config) =
        of_bool (deviceName config = []) + of_bool (serviceUUID config = [])
        + of_bool (\<not> isValidUUID (serviceUUID config))
        + of_bool (txPowerLevel config < - 30 \<or> txPowerLevel config > 10)
        + of_bool (advertiseMode config < 0 \<or> advertiseMode config > 2)
        + of_bool (interval_rule_violated (interval config) \<and> interval config \<noteq> Some 0)
        + (case payload config of None \<Rightarrow> 0
           | Some p \<Rightarrow> of_bool (walletAddress p = None \<or> walletAddress p = Some [])
               + of_bool (timestamp p = None \<or> timestamp p = Some 0))"
    unfolding iv [symmetric] ts [symmetric] tn [symmetric]
    by (simp add: validation_errors_def payload_errors_def length_push_if split: option.split)
  have two: "2 \<le> length (validation_errors config)"
    if "deviceName config = []" "txPowerLevel config < - 30 \<or> txPowerLevel config > 10"
    using that unfolding count by auto
  have v: "valid (validateAdvertisingConfig config) = False
        \<longleftrightarrow> validation_errors config \<noteq> []"
    by (simp add: valid_iff errors_validate)
  show ?thesis
    unfolding errors_validate
    using 1 2 3 4 5 6 [unfolded iv] 7 8 count two v by blast
qed

theorem validate_reports_violations_witness:
  "errors (validateAdvertisingConfig (sample_config\<lparr> deviceName := [], txPowerLevel := 11 \<rparr>))
     = [''Device name is required'', ''TX power level must be between -30 and 10 dBm'']
   \<and> valid (validateAdvertisingConfig (sample_config\<lparr> deviceName := [], txPowerLevel := 11 \<rparr>))
     = False
   \<and> interval_rule_violated (interval (sample_config\<lparr> interval := Some 19 \<rparr>))
   \<and> interval (sample_config\<lparr> interval := Some 19 \<rparr>) \<noteq> Some 0
   \<and> ''Advertising interval must be between 20ms and 10240ms''
       \<in> set (errors (validateAdvertisingConfig (sample_config\<lparr> interval := Some 19 \<rparr>)))"
proof -
  let ?c = "sample_config\<lparr> deviceName := [], txPowerLevel := 11 \<rparr>"
  let ?d = "sample_config\<lparr> interval := Some 19 \<rparr>"
  have e: "validation_errors ?c
      = [''Device name is required'', ''TX power level must be between -30 and 10 dBm'']"
    using valid_sample_uuid
    by (simp add: validation_errors_def push_if_def sample_config_fields sample_uuid_def
        interval_out_of_range_def sample_payload_errors)
  have f: "interval_rule_violated (interval ?d) \<and> interval ?d \<noteq> Some 0"
    by (simp add: interval_rule_violated_def)
  from validate_reports_violations [of ?c]
  have g: "errors (validateAdvertisingConfig ?c)
      = [''Device name is required'', ''TX power level must be between -30 and 10 dBm'']
    \<and> valid (validateAdvertisingConfig ?c) = False"
    by (simp add: errors_validate e)
  from validate_reports_violations [of ?d] f
  have h: "''Advertising interval must be between 20ms and 10240ms''
       \<in> set (errors (validateAdvertisingConfig ?d))"
    by blast
  from f g h show ?thesis by blast
qed

text \<open>
  \<^bold>\<open>C7.\<close> For every string \<open>s\<close>, the service-id check accepts \<open>s\<close> exactly when \<open>s\<close>
  has the 8-4-4-4-12 shape of hexadecimal groups in either case, and the validator
  reports the invalid-format message for every other string.
\<close>

theorem service_id_check_is_uuid_shape:
  "isValidUUID s = uuid_shape s
   \<and> (''Invalid service UUID format''
         \<in> set (errors (validateAdvertisingConfig (config\<lparr> serviceUUID := s \<rparr>)))
       \<longleftrightarrow> \<not> uuid_shape s)"
proof -
  have "''Invalid service UUID format''
         \<in> set (validation_errors (config\<lparr> serviceUUID := s \<rparr>)) \<longleftrightarrow> \<not> isValidUUID s"
    by (simp add: validation_errors_def set_push_if payload_errors_def split: option.split)
  then show ?thesis
    by (simp add: errors_validate isValidUUID_shape)
qed

theorem service_id_check_is_uuid_shape_witness:
  "uuid_shape sample_uuid
   \<and> ''Invalid service UUID format''
        \<notin> set (errors (validateAdvertisingConfig (sample_config\<lparr> serviceUUID := sample_uuid \<rparr>)))
   \<and> \<not> uuid_shape ''123e4567-e89b''
   \<and> ''Invalid service UUID format''
        \<in> set (errors (validateAdvertisingConfig
              (sample_config\<lparr> serviceUUID := ''123e4567-e89b'' \<rparr>)))"
  using service_id_check_is_uuid_shape [of sample_uuid sample_config]
    service_id_check_is_uuid_shape [of "''123e4567-e89b''" sample_config]
    valid_sample_uuid invalid_short_uuid
  by simp

text \<open>
  \<^bold>\<open>C10.\<close> The validator tests the presence of the interval by truthiness: the interval
  message appears exactly when the interval is present, non-zero and outside
  \<open>[20, 10240]\<close>. A configuration whose interval is \<open>0\<close> and whose other fields are
  well-formed is reported valid, with no message at all.
\<close>

theorem zero_interval_passes_validation:
  "(''Advertising interval must be between 20ms and 10240ms''
       \<in> set (errors (validateAdvertisingConfig config))
     \<longleftrightarrow> (\<exists>i. interval config = Some i \<and> i \<noteq> 0 \<and> (i < 20 \<or> i > 10240)))
   \<and> (interval config = Some 0 \<and> deviceName config \<noteq> [] \<and> isValidUUID (serviceUUID config)
       \<and> - 30 \<le> txPowerLevel config \<and> txPowerLevel config \<le> 10
       \<and> 0 \<le> advertiseMode config \<and> advertiseMode config \<le> 2
       \<and> (\<forall>p. payload config = Some p \<longrightarrow>
             truthy_string (walletAddress p) \<and> truthy_number (timestamp p))
     \<longrightarrow> validateAdvertisingConfig config = \<lparr> valid = True, errors = [] \<rparr>)"
proof -
  have a: "''Advertising interval must be between 20ms and 10240ms''
       \<in> set (validation_errors config) \<longleftrightarrow> interval_out_of_range (interval config)"
    by (simp add: validation_errors_def set_push_if payload_errors_def split: option.split)
  have b: "interval_out_of_range (interval config)
     \<longleftrightarrow> (\<exists>i. interval config = Some i \<and> i \<noteq> 0 \<and> (i < 20 \<or> i > 10240))"
    by (simp add: interval_out_of_range_def split: option.split)
  have c: "validation_errors config = []"
    if "interval config = Some 0" "deviceName config \<noteq> []" "isValidUUID (serviceUUID config)"
      "- 30 \<le> txPowerLevel config" "txPowerLevel config \<le> 10"
      "0 \<le> advertiseMode config" "advertiseMode config \<le> 2"
      "\<forall>p. payload config = Some p \<longrightarrow>
             truthy_string (walletAddress p) \<and> truthy_number (timestamp p)"
  proof (rule validation_errors_ok)
    show "\<not> interval_out_of_range (interval config)"
      using that(1) by (simp add: interval_out_of_range_def)
    show "payload_errors (payload config) = []"
      using that(8) by (simp add: payload_errors_def push_if_def split: option.split)
  qed (use that in simp_all)
  have d: "validateAdvertisingConfig config = \<lparr> valid = True, errors = [] \<rparr>"
    if "validation_errors config = []"
    using that by (simp add: validateAdvertisingConfig_def Let_def)
  from a b show ?thesis
    unfolding errors_validate using c d by blast
qed

theorem zero_interval_passes_validation_witness:
  "interval (sample_config\<lparr> interval := Some 0 \<rparr>) = Some 0
   \<and> validateAdvertisingConfig (sample_config\<lparr> interval := Some 0 \<rparr>)
       = \<lparr> valid = True, errors = [] \<rparr>
   \<and> ''Advertising interval must be between 20ms and 10240ms''
       \<in> set (errors (validateAdvertisingConfig (sample_config\<lparr> interval := Some 19 \<rparr>)))"
  using zero_interval_passes_validation [of "sample_config\<lparr> interval := Some 0 \<rparr>"]
    zero_interval_passes_validation [of "sample_config\<lparr> interval := Some 19 \<rparr>"]
    valid_sample_uuid
  by (simp add: sample_config_fields sample_payload_def truthy_string_def truthy_number_def)

text \<open>
  \<^bold>\<open>C8.\<close> The payment configuration built for a device name, a service id and a payload
  carries transmit power \<open>-12\<close>, timeout \<open>60000\<close>, interval \<open>100\<close>, the connectable and
  include-device-name flags and the payload, but its advertise mode is \<open>0\<close>, which is
  \<^verbatim>\<open>ADVERTISE_MODE_LOW_POWER\<close> and not the value \<open>1\<close> of the balanced mode that the
  comment beside the constant names.
\<close>

theorem payment_config_advertise_mode:
  "advertiseMode (createPaymentAdvertisingConfig android ''Alice-Phone'' sample_uuid sample_payload)
     = 0
   \<and> advertiseMode
       (createPaymentAdvertisingConfig android ''Alice-Phone'' sample_uuid sample_payload) \<noteq> 1
   \<and> txPowerLevel
       (createPaymentAdvertisingConfig android ''Alice-Phone'' sample_uuid sample_payload) = - 12
   \<and> timeout (createPaymentAdvertisingConfig android ''Alice-Phone'' sample_uuid sample_payload)
       = Some 60000
   \<and> interval (createPaymentAdvertisingConfig android ''Alice-Phone'' sample_uuid sample_payload)
       = Some 100
   \<and> connectable
       (createPaymentAdvertisingConfig android ''Alice-Phone'' sample_uuid sample_payload)
   \<and> includeDeviceName
       (createPaymentAdvertisingConfig android ''Alice-Phone'' sample_uuid sample_payload)
   \<and> payload (createPaymentAdvertisingConfig android ''Alice-Phone'' sample_uuid sample_payload)
       = Some sample_payload"
  by (simp add: createPaymentAdvertisingConfig_def)

subsection \<open>The tracker and the controller\<close>

lemma store_recordMetrics:
  "store (recordMetrics sid t ok err tr st) =
     store st @ [\<lparr> startTime = t, stopTime = None, duration = 0, success = ok,
       errorCount = (if truthy_string err then 1 else 0), restartCount = 0,
       payloadTransmitted = tr \<rparr>]"
  by (simp add: recordMetrics_def Let_def)

lemma metrics_recordMetrics:
  "metrics (recordMetrics sid t ok err tr st) =
     AList.update sid (length (store st)) (metrics st)"
  by (simp add: recordMetrics_def Let_def)

lemma other_recordMetrics:
  "restartAttempts (recordMetrics sid t ok err tr st) = restartAttempts st"
  "now (recordMetrics sid t ok err tr st) = now st"
  "calls (recordMetrics sid t ok err tr st) = calls st"
  by (simp_all add: recordMetrics_def Let_def)

lemma view_append:
  "list_all (\<lambda>(k, r). r < length (store st)) snap \<Longrightarrow> store st' = store st @ xs
    \<Longrightarrow> view st' snap = view st snap"
  by (induction snap) (auto simp: view_def deref_def nth_append)

lemma view_same_store: "store st' = store st \<Longrightarrow> view st' snap = view st snap"
  by (auto simp: view_def deref_def)

lemma metrics_start:
  "metrics (snd (startAdvertisingWithEnhancements rt adv config sid st)) =
     AList.update sid (length (store st)) (metrics st)"
  by (simp add: startAdvertisingWithEnhancements_def Let_def metrics_recordMetrics
      split: driver_result.split)

lemma store_start:
  "\<exists>m. store (snd (startAdvertisingWithEnhancements rt adv config sid st)) = store st @ [m]
     \<and> success m = r_success (fst (startAdvertisingWithEnhancements rt adv config sid st))
     \<and> restartCount m = 0"
  by (simp add: startAdvertisingWithEnhancements_def Let_def store_recordMetrics
      split: driver_result.split)

lemma restartAttempts_start:
  "restartAttempts (snd (startAdvertisingWithEnhancements rt adv config sid st)) =
     restartAttempts st"
  by (simp add: startAdvertisingWithEnhancements_def Let_def other_recordMetrics
      split: driver_result.split)

lemma now_start:
  "now (snd (startAdvertisingWithEnhancements rt adv config sid st)) = now st"
  by (simp add: startAdvertisingWithEnhancements_def Let_def other_recordMetrics
      split: driver_result.split)

lemma calls_start:
  "start_calls (snd (startAdvertisingWithEnhancements rt adv config sid st))
     \<le> Suc (start_calls st)"
  by (simp add: startAdvertisingWithEnhancements_def Let_def other_recordMetrics
      start_calls_def split: driver_result.split)

lemma start_fails:
  assumes "\<And>h m. startBroadcast adv h m \<noteq> Resolves True"
  shows "\<not> r_success (fst (startAdvertisingWithEnhancements rt adv config sid st))"
  using assms
  by (auto simp: startAdvertisingWithEnhancements_def Let_def split: driver_result.split)

lemma restart_exhausted:
  "maxRestartAttempts \<le> attempts_of st sid \<Longrightarrow>
   restartAdvertisingIfNeeded rt adv config sid st = (False, st)"
  by (simp add: restartAdvertisingIfNeeded_def attempts_of_def Let_def)

lemma restart_attempt:
  assumes "attempts_of st sid < maxRestartAttempts"
  shows "fst (restartAdvertisingIfNeeded rt adv config sid st) =
           r_success (fst (startAdvertisingWithEnhancements rt adv config sid
             (backoff_state sid st)))"
    and "calls (snd (restartAdvertisingIfNeeded rt adv config sid st)) =
           calls (snd (startAdvertisingWithEnhancements rt adv config sid
             (backoff_state sid st)))"
    and "restartAttempts (snd (restartAdvertisingIfNeeded rt adv config sid st)) =
           AList.update sid (attempts_of st sid + 1) (restartAttempts st)"
    and "now (snd (restartAdvertisingIfNeeded rt adv config sid st)) = now st + restartDelay"
  using assms restartAttempts_start [of rt adv config sid "backoff_state sid st"]
    now_start [of rt adv config sid "backoff_state sid st"]
  by (auto simp: restartAdvertisingIfNeeded_def attempts_of_def Let_def backoff_state_def
      split: prod.split option.split)

lemma attempts_after_restart:
  "attempts_of (snd (restartAdvertisingIfNeeded rt adv config sid st)) sid =
     (if attempts_of st sid < maxRestartAttempts
      then attempts_of st sid + 1 else attempts_of st sid)"
proof (cases "attempts_of st sid < maxRestartAttempts")
  case True
  then show ?thesis
    by (simp add: attempts_of_def [of "snd _"] restart_attempt(3) update_conv')
next
  case False
  then show ?thesis by (simp add: restart_exhausted)
qed

lemma start_calls_after_restart:
  "start_calls (snd (restartAdvertisingIfNeeded rt adv config sid st)) \<le>
     start_calls st + (if attempts_of st sid < maxRestartAttempts then 1 else 0)"
proof (cases "attempts_of st sid < maxRestartAttempts")
  case True
  have "start_calls (backoff_state sid st) = start_calls st"
    by (simp add: start_calls_def backoff_state_def)
  with True calls_start [of rt adv config sid "backoff_state sid st"] show ?thesis
    by (simp add: start_calls_def restart_attempt(2))
next
  case False
  then show ?thesis by (simp add: restart_exhausted)
qed

lemma restart_repeatedly_bound:
  "start_calls (snd (restart_repeatedly n rt adv config sid st)) \<le>
     start_calls st + (maxRestartAttempts - attempts_of st sid)"
proof (induction n arbitrary: st)
  case 0
  then show ?case by simp
next
  case (Suc n)
  let ?st1 = "snd (restartAdvertisingIfNeeded rt adv config sid st)"
  have "start_calls (snd (restart_repeatedly n rt adv config sid ?st1)) \<le>
          start_calls ?st1 + (maxRestartAttempts - attempts_of ?st1 sid)"
    by (rule Suc.IH)
  also have "\<dots> \<le> start_calls st + (maxRestartAttempts - attempts_of st sid)"
    using start_calls_after_restart [of rt adv config sid st]
    by (simp add: attempts_after_restart split: if_splits)
  finally show ?case
    by (simp add: split_beta Let_def)
qed

lemma restart_repeatedly_all_fail:
  assumes "\<And>h m. startBroadcast adv h m \<noteq> Resolves True"
  shows "list_all (\<lambda>b. \<not> b) (fst (restart_repeatedly n rt adv config sid st))"
proof (induction n arbitrary: st)
  case 0
  then show ?case by simp
next
  case (Suc n)
  have "\<not> fst (restartAdvertisingIfNeeded rt adv config sid st)"
    using start_fails [OF assms] restart_attempt(1) restart_exhausted
    by (cases "attempts_of st sid < maxRestartAttempts") (simp_all add: not_less)
  with Suc.IH show ?case
    by (simp add: split_beta Let_def)
qed

lemma map_of_delete_same: "map_of (AList.delete k al) k = None"
  by (simp add: delete_conv')

lemma advertising_state_eq:
  "advertising_state =
     \<lparr> store = [\<lparr> startTime = 1000, stopTime = None, duration = 0, success = True,
                  errorCount = 0, restartCount = 0, payloadTransmitted = Some True \<rparr>],
       metrics = [(''session-1'', 0)],
       restartAttempts = [],
       now = 1000,
       calls = [StartBroadcast ''{payload:0xA11CE}''] \<rparr>"
  by (simp add: advertising_state_def startAdvertisingWithEnhancements_def Let_def
      valid_iff errors_validate sample_config_valid android_def accepting_driver_def
      sample_config_fields recordMetrics_def initial_state_def truthy_string_def
      sample_stringify_def sample_payload_def)

lemma store_restart:
  "\<exists>xs. store (snd (restartAdvertisingIfNeeded rt adv config sid st)) = store st @ xs"
proof (cases "attempts_of st sid < maxRestartAttempts")
  case False
  then show ?thesis by (simp add: restart_exhausted)
next
  case True
  let ?st2 = "backoff_state sid st"
  obtain m where m: "store (snd (startAdvertisingWithEnhancements rt adv config sid ?st2))
      = store ?st2 @ [m]"
    using store_start by blast
  have s2: "store ?st2 = store st" by (simp add: backoff_state_def)
  have st2: "st\<lparr>restartAttempts := AList.update sid (Suc (attempts_of st sid)) (restartAttempts st),
          now := now st + restartDelay\<rparr> = ?st2"
    by (simp add: backoff_state_def)
  show ?thesis
    using True m metrics_start [of rt adv config sid ?st2]
    unfolding s2
    apply (simp add: restartAdvertisingIfNeeded_def Let_def split_beta
        attempts_of_def [symmetric] st2 update_conv')
    done
qed

lemma map_of_view: "map_of (view st snap) k = map_option (deref st) (map_of snap k)"
  by (induction snap) (auto simp: view_def)

lemma stop_updates_object:
  assumes "stopBroadcast adv (calls st) = Resolves b" "map_of (metrics st) sid = Some r"
    "deref st r = Some m"
  shows "deref (snd (stopAdvertisingWithEnhancements adv sid st)) r
     = Some (m\<lparr> stopTime := Some (now st), duration := now st - startTime m \<rparr>)"
  using assms
  by (auto simp: stopAdvertisingWithEnhancements_def Let_def deref_def split: if_splits)

text \<open>
  The references in the metrics map stay inside the store: this holds for the empty
  instance and every operation preserves it.
\<close>

lemma set_update_subset: "set (AList.update k v al) \<subseteq> insert (k, v) (set al)"
  by (induction al) auto

lemma set_delete_subset: "set (AList.delete k al) \<subseteq> set al"
  by (auto simp: AList.delete_eq)

lemma refs_valid_initial: "refs_valid (initial_state t)"
  by (simp add: refs_valid_def initial_state_def)

lemma refs_valid_grow:
  assumes "refs_valid st" "store st' = store st @ [m]"
    "metrics st' = AList.update sid (length (store st)) (metrics st)"
  shows "refs_valid st'"
  using assms set_update_subset [of sid "length (store st)" "metrics st"]
  by (fastforce simp: refs_valid_def list_all_iff)

lemma refs_valid_recordMetrics:
  "refs_valid st \<Longrightarrow> refs_valid (recordMetrics sid t ok err tr st)"
  by (rule refs_valid_grow) (simp_all add: store_recordMetrics metrics_recordMetrics)

lemma refs_valid_start:
  assumes "refs_valid st"
  shows "refs_valid (snd (startAdvertisingWithEnhancements rt adv config sid st))"
proof -
  obtain m where "store (snd (startAdvertisingWithEnhancements rt adv config sid st))
      = store st @ [m]"
    using store_start by blast
  with assms show ?thesis
    by (rule refs_valid_grow) (rule metrics_start)
qed

lemma refs_valid_stop:
  "refs_valid st \<Longrightarrow> refs_valid (snd (stopAdvertisingWithEnhancements adv sid st))"
  by (simp add: refs_valid_def stopAdvertisingWithEnhancements_def Let_def
      split: driver_result.split option.split)

lemma refs_valid_clear: "refs_valid st \<Longrightarrow> refs_valid (clearMetrics sid st)"
  using set_delete_subset [of sid "metrics st"]
  by (fastforce simp: refs_valid_def clearMetrics_def list_all_iff)

lemma refs_valid_clearAll: "refs_valid (clearAllMetrics st)"
  by (simp add: refs_valid_def clearAllMetrics_def)

lemma refs_valid_restart:
  assumes "refs_valid st"
  shows "refs_valid (snd (restartAdvertisingIfNeeded rt adv config sid st))"
proof (cases "attempts_of st sid < maxRestartAttempts")
  case False
  with assms show ?thesis by (simp add: restart_exhausted)
next
  case True
  let ?st2 = "backoff_state sid st"
  have "refs_valid ?st2"
    using assms by (simp add: refs_valid_def backoff_state_def)
  then have v: "refs_valid (snd (startAdvertisingWithEnhancements rt adv config sid ?st2))"
    by (rule refs_valid_start)
  have st2: "st\<lparr>restartAttempts := AList.update sid (Suc (attempts_of st sid)) (restartAttempts st),
          now := now st + restartDelay\<rparr> = ?st2"
    by (simp add: backoff_state_def)
  show ?thesis
    using True v
    by (simp add: restartAdvertisingIfNeeded_def Let_def split_beta
        attempts_of_def [symmetric] st2 refs_valid_def split: option.split)
qed

lemma advertising_state_refs_valid: "refs_valid advertising_state"
  by (simp add: advertising_state_eq refs_valid_def)

lemma attempts_backoff: "attempts_of (backoff_state sid st) sid = attempts_of st sid + 1"
  by (simp add: backoff_state_def attempts_of_def [of "_\<lparr>restartAttempts := _, now := _\<rparr>"] update_conv')

lemma start_declined:
  "startAdvertisingWithEnhancements android declining_driver sample_config sid st
   = (\<lparr> r_success = False,
        r_error = Some ''Failed to start advertising - no result from startBroadcast'' \<rparr>,
      recordMetrics sid (now st) False
        (Some ''Failed to start advertising - no result from startBroadcast'') None
        (st\<lparr> calls := calls st @ [StartBroadcast ''{payload:0xA11CE}''] \<rparr>))"
  by (simp add: startAdvertisingWithEnhancements_def Let_def valid_iff errors_validate
      sample_config_valid android_def sample_config_fields declining_driver_def
      sample_stringify_def sample_payload_def)

lemma five_restarts_declined:
  "fst (restart_repeatedly 5 android declining_driver sample_config ''session-1''
      (initial_state 0)) = [False, False, False, False, False]
   \<and> start_calls (snd (restart_repeatedly 5 android declining_driver sample_config
      ''session-1'' (initial_state 0))) = 3"
  by (simp add: eval_nat_numeral restartAdvertisingIfNeeded_def maxRestartAttempts_def
      restartDelay_def Let_def start_declined recordMetrics_def initial_state_def
      start_calls_def)

subsection \<open>Stopping\<close>

text \<open>
  \<^bold>\<open>C1.\<close> The stop operation does not look at the value that \<^verbatim>\<open>stopBroadcast\<close> resolves
  to: with a driver that resolves to \<open>false\<close> it returns \<open>success = true\<close> and no error,
  while with a driver that throws it returns \<open>success = false\<close> and the message. The start
  operation of the same class does test the resolved value.
\<close>

theorem stop_reports_success_on_false:
  "fst (stopAdvertisingWithEnhancements declining_driver ''session-1'' (initial_state 0))
     = \<lparr> r_success = True, r_error = None \<rparr>
   \<and> fst (stopAdvertisingWithEnhancements throwing_driver ''session-1'' (initial_state 0))
     = \<lparr> r_success = False, r_error = Some ''radio unavailable'' \<rparr>"
  by (simp add: stopAdvertisingWithEnhancements_def declining_driver_def throwing_driver_def
      initial_state_def error_message_def Let_def)

text \<open>
  \<^bold>\<open>C3\<close>, as stated, fails: when \<^verbatim>\<open>stopBroadcast\<close> throws, the counter of the session
  is still there after the stop operation.
\<close>

theorem stop_keeps_counter_on_throw_counterexample:
  "attempts_of retried_state ''session-1'' = 2
   \<and> attempts_of (snd (stopAdvertisingWithEnhancements throwing_driver ''session-1'' retried_state))
        ''session-1'' = 2
   \<and> map_of (restartAttempts
        (snd (stopAdvertisingWithEnhancements throwing_driver ''session-1'' retried_state)))
        ''session-1'' \<noteq> None"
  by (simp add: stopAdvertisingWithEnhancements_def throwing_driver_def retried_state_def
      initial_state_def attempts_of_def Let_def)

text \<open>
  \<^bold>\<open>C3\<close>, amended. For every session id, the stop operation removes the restart counter
  of the session whenever \<^verbatim>\<open>stopBroadcast\<close> resolves; when \<^verbatim>\<open>stopBroadcast\<close> throws,
  the operation returns the failed result with the message of the error (it is a value,
  nothing propagates) and leaves the restart counters as they were.
\<close>

theorem stop_clears_counter_unless_thrown:
  "(\<forall>b. stopBroadcast advertiser (calls st) = Resolves b \<longrightarrow>
      map_of (restartAttempts (snd (stopAdvertisingWithEnhancements advertiser sessionId st)))
        sessionId = None)
   \<and> (\<forall>e. stopBroadcast advertiser (calls st) = Rejects e \<longrightarrow>
      fst (stopAdvertisingWithEnhancements advertiser sessionId st)
        = \<lparr> r_success = False, r_error = Some (error_message e) \<rparr>
      \<and> restartAttempts (snd (stopAdvertisingWithEnhancements advertiser sessionId st))
        = restartAttempts st)"
  by (simp add: stopAdvertisingWithEnhancements_def Let_def map_of_delete_same
      split: option.split)

theorem stop_clears_counter_unless_thrown_witness:
  "stopBroadcast accepting_driver (calls retried_state) = Resolves True
   \<and> map_of (restartAttempts
        (snd (stopAdvertisingWithEnhancements accepting_driver ''session-1'' retried_state)))
        ''session-1'' = None
   \<and> stopBroadcast throwing_driver (calls retried_state)
        = Rejects (ErrorInstance ''radio unavailable'')
   \<and> fst (stopAdvertisingWithEnhancements throwing_driver ''session-1'' retried_state)
        = \<lparr> r_success = False, r_error = Some ''radio unavailable'' \<rparr>
   \<and> restartAttempts
        (snd (stopAdvertisingWithEnhancements throwing_driver ''session-1'' retried_state))
        = [(''session-1'', 2)]"
proof -
  have a: "stopBroadcast accepting_driver (calls retried_state) = Resolves True"
    by (simp add: accepting_driver_def)
  have b: "stopBroadcast throwing_driver (calls retried_state)
      = Rejects (ErrorInstance ''radio unavailable'')"
    by (simp add: throwing_driver_def)
  have c: "restartAttempts retried_state = [(''session-1'', 2)]"
    by (simp add: retried_state_def)
  from a stop_clears_counter_unless_thrown [of accepting_driver retried_state "''session-1''"]
  have d: "map_of (restartAttempts
        (snd (stopAdvertisingWithEnhancements accepting_driver ''session-1'' retried_state)))
        ''session-1'' = None"
    by blast
  from b stop_clears_counter_unless_thrown [of throwing_driver retried_state "''session-1''"]
  have e: "fst (stopAdvertisingWithEnhancements throwing_driver ''session-1'' retried_state)
        = \<lparr> r_success = False, r_error = Some ''radio unavailable'' \<rparr>
      \<and> restartAttempts
        (snd (stopAdvertisingWithEnhancements throwing_driver ''session-1'' retried_state))
        = restartAttempts retried_state"
    by (simp add: error_message_def)
  from a b d e show ?thesis
    unfolding c by blast
qed

subsection \<open>Starting\<close>

text \<open>
  \<^bold>\<open>C2\<close>, as stated, fails: on a platform other than Android an invalid configuration
  is answered with the validation message, not with the platform message, because the
  configuration is validated before the platform is looked at.
\<close>

theorem start_validates_before_platform_counterexample:
  "OS ios \<noteq> ''android''
   \<and> r_error (fst (startAdvertisingWithEnhancements ios accepting_driver nameless_config
        ''session-1'' (initial_state 0)))
     = Some ''Invalid advertising configuration: Device name is required''
   \<and> r_error (fst (startAdvertisingWithEnhancements ios accepting_driver nameless_config
        ''session-1'' (initial_state 0)))
     \<noteq> Some ''BLE advertising is only supported on Android''"
  by (simp add: startAdvertisingWithEnhancements_def nameless_config_errors ios_def join_def
      Let_def)

text \<open>
  \<^bold>\<open>C2\<close>, amended. For every configuration and session id, when the platform is not
  Android the start operation returns \<open>success = false\<close> without calling the driver and
  records a failed session (one error, started at the current time). The configuration is
  validated first: the error is the platform message when the configuration is valid, and
  the joined validation messages when it is not.
\<close>

theorem start_on_unsupported_platform:
  assumes "OS rt \<noteq> ''android''"
  shows "r_success (fst (startAdvertisingWithEnhancements rt advertiser config sessionId st)) = False
    \<and> calls (snd (startAdvertisingWithEnhancements rt advertiser config sessionId st)) = calls st
    \<and> r_error (fst (startAdvertisingWithEnhancements rt advertiser config sessionId st))
        = Some (if valid (validateAdvertisingConfig config)
                then ''BLE advertising is only supported on Android''
                else ''Invalid advertising configuration: ''
                     @ join '', '' (errors (validateAdvertisingConfig config)))
    \<and> map_of (metrics (snd (startAdvertisingWithEnhancements rt advertiser config sessionId st)))
        sessionId = Some (length (store st))
    \<and> deref (snd (startAdvertisingWithEnhancements rt advertiser config sessionId st))
        (length (store st))
        = Some \<lparr> startTime = now st, stopTime = None, duration = 0, success = False,
                 errorCount = 1, restartCount = 0, payloadTransmitted = None \<rparr>"
  using assms
  by (simp add: startAdvertisingWithEnhancements_def Let_def recordMetrics_def deref_def
      update_conv' truthy_string_def)

theorem start_on_unsupported_platform_witness:
  "OS ios \<noteq> ''android''
   \<and> fst (startAdvertisingWithEnhancements ios accepting_driver sample_config ''session-1''
        (initial_state 0))
       = \<lparr> r_success = False, r_error = Some ''BLE advertising is only supported on Android'' \<rparr>
   \<and> calls (snd (startAdvertisingWithEnhancements ios accepting_driver sample_config
        ''session-1'' (initial_state 0))) = []
   \<and> r_error (fst (startAdvertisingWithEnhancements ios accepting_driver nameless_config
        ''session-1'' (initial_state 0)))
       = Some ''Invalid advertising configuration: Device name is required''"
proof -
  have os: "OS ios \<noteq> ''android''" by (simp add: ios_def)
  have v: "valid (validateAdvertisingConfig sample_config)"
    by (simp add: valid_iff errors_validate sample_config_valid)
  have c: "calls (initial_state 0) = []" by (simp add: initial_state_def)
  from start_on_unsupported_platform [OF os, of accepting_driver sample_config "''session-1''"
      "initial_state 0"]
    start_on_unsupported_platform [OF os, of accepting_driver nameless_config "''session-1''"
      "initial_state 0"]
  show ?thesis
    using os v c
    by (cases "fst (startAdvertisingWithEnhancements ios accepting_driver sample_config
          ''session-1'' (initial_state 0))")
      (simp add: nameless_config_errors join_def)
qed

subsection \<open>Snapshots of the metrics\<close>

text \<open>
  \<^bold>\<open>C4\<close>, as stated, fails: a snapshot taken while a session is advertising shows, after
  the session has been stopped, the stop time and the duration that the stop operation
  wrote.
\<close>

theorem snapshot_sees_stop_counterexample:
  "view advertising_state (getAllAdvertisingMetrics advertising_state)
     = [(''session-1'', Some \<lparr> startTime = 1000, stopTime = None, duration = 0, success = True,
          errorCount = 0, restartCount = 0, payloadTransmitted = Some True \<rparr>)]
   \<and> view stopped_state (getAllAdvertisingMetrics advertising_state)
     = [(''session-1'', Some \<lparr> startTime = 1000, stopTime = Some 4000, duration = 3000,
          success = True, errorCount = 0, restartCount = 0, payloadTransmitted = Some True \<rparr>)]
   \<and> view stopped_state (getAllAdvertisingMetrics advertising_state)
     \<noteq> view advertising_state (getAllAdvertisingMetrics advertising_state)"
  by (simp add: stopped_state_def advertising_state_eq stopAdvertisingWithEnhancements_def
      Let_def accepting_driver_def view_def deref_def getAllAdvertisingMetrics_def)

text \<open>
  \<^bold>\<open>C4\<close>, amended. The map returned by \<^verbatim>\<open>getAllAdvertisingMetrics\<close> is a copy of the
  map and shares the records. For every state whose references are valid, what a snapshot
  shows is unchanged by operations run after it was taken that add, replace or remove
  entries: recording metrics, starting, restarting (which bumps the restart count of the
  record it has just created), clearing one session and clearing all. The stop operation writes into the
  shared record: when \<^verbatim>\<open>stopBroadcast\<close> resolves, the snapshot entry of the stopped
  session shows the new stop time and duration.
\<close>

theorem snapshot_is_shallow_copy:
  assumes "refs_valid st"
  shows "view (recordMetrics sessionId t ok err tr st) (getAllAdvertisingMetrics st)
           = view st (getAllAdvertisingMetrics st)
    \<and> view (snd (startAdvertisingWithEnhancements rt advertiser config sessionId st))
           (getAllAdvertisingMetrics st)
           = view st (getAllAdvertisingMetrics st)
    \<and> view (snd (restartAdvertisingIfNeeded rt advertiser config sessionId st))
           (getAllAdvertisingMetrics st)
           = view st (getAllAdvertisingMetrics st)
    \<and> view (clearMetrics sessionId st) (getAllAdvertisingMetrics st)
           = view st (getAllAdvertisingMetrics st)
    \<and> view (clearAllMetrics st) (getAllAdvertisingMetrics st)
           = view st (getAllAdvertisingMetrics st)
    \<and> (\<forall>b r m. stopBroadcast advertiser (calls st) = Resolves b
          \<and> map_of (getAllAdvertisingMetrics st) sessionId = Some r \<and> deref st r = Some m
        \<longrightarrow> map_of (view (snd (stopAdvertisingWithEnhancements advertiser sessionId st))
               (getAllAdvertisingMetrics st)) sessionId
            = Some (Some (m\<lparr> stopTime := Some (now st), duration := now st - startTime m \<rparr>)))"
proof -
  let ?snap = "getAllAdvertisingMetrics st"
  have valid: "list_all (\<lambda>(k, r). r < length (store st)) ?snap"
    using assms by (simp add: refs_valid_def getAllAdvertisingMetrics_def)
  have 1: "view (recordMetrics sessionId t ok err tr st) ?snap = view st ?snap"
    using valid store_recordMetrics by (rule view_append)
  obtain m where "store (snd (startAdvertisingWithEnhancements rt advertiser config sessionId st))
      = store st @ [m]"
    using store_start by blast
  with valid
  have 2: "view (snd (startAdvertisingWithEnhancements rt advertiser config sessionId st)) ?snap
      = view st ?snap"
    by (rule view_append)
  obtain xs where "store (snd (restartAdvertisingIfNeeded rt advertiser config sessionId st))
      = store st @ xs"
    using store_restart by blast
  with valid
  have 3: "view (snd (restartAdvertisingIfNeeded rt advertiser config sessionId st)) ?snap
      = view st ?snap"
    by (rule view_append)
  have 4: "view (clearMetrics sessionId st) ?snap = view st ?snap"
    by (rule view_same_store) (simp add: clearMetrics_def)
  have 5: "view (clearAllMetrics st) ?snap = view st ?snap"
    by (rule view_same_store) (simp add: clearAllMetrics_def)
  have 6: "map_of (view (snd (stopAdvertisingWithEnhancements advertiser sessionId st)) ?snap)
             sessionId
           = Some (Some (m\<lparr> stopTime := Some (now st), duration := now st - startTime m \<rparr>))"
    if "stopBroadcast advertiser (calls st) = Resolves b"
      "map_of ?snap sessionId = Some r" "deref st r = Some m" for b r m
    using that stop_updates_object [of advertiser st b sessionId r m]
    by (simp add: map_of_view getAllAdvertisingMetrics_def)
  from 1 2 3 4 5 6 show ?thesis by blast
qed

theorem snapshot_is_shallow_copy_witness:
  "refs_valid advertising_state
   \<and> view (clearAllMetrics advertising_state) (getAllAdvertisingMetrics advertising_state)
       = view advertising_state (getAllAdvertisingMetrics advertising_state)
   \<and> view (snd (startAdvertisingWithEnhancements android declining_driver sample_config
          ''session-1'' advertising_state)) (getAllAdvertisingMetrics advertising_state)
       = view advertising_state (getAllAdvertisingMetrics advertising_state)
   \<and> map_of (view (snd (stopAdvertisingWithEnhancements accepting_driver ''session-1''
          advertising_state)) (getAllAdvertisingMetrics advertising_state)) ''session-1''
       = Some (Some \<lparr> startTime = 1000, stopTime = Some 1000, duration = 0, success = True,
           errorCount = 0, restartCount = 0, payloadTransmitted = Some True \<rparr>)"
proof -
  let ?m = "\<lparr> startTime = 1000, stopTime = None, duration = 0, success = True,
           errorCount = 0, restartCount = 0, payloadTransmitted = Some True \<rparr>"
  have a: "stopBroadcast accepting_driver (calls advertising_state) = Resolves True"
    by (simp add: accepting_driver_def)
  have b: "map_of (getAllAdvertisingMetrics advertising_state) ''session-1'' = Some 0"
    by (simp add: getAllAdvertisingMetrics_def advertising_state_eq)
  have c: "deref advertising_state 0 = Some ?m"
    by (simp add: deref_def advertising_state_eq)
  have d: "now advertising_state = 1000"
    by (simp add: advertising_state_eq)
  from snapshot_is_shallow_copy [OF advertising_state_refs_valid,
      where sessionId = "''session-1''" and rt = android and advertiser = declining_driver
        and config = sample_config]
    snapshot_is_shallow_copy [OF advertising_state_refs_valid,
      where sessionId = "''session-1''" and advertiser = accepting_driver]
  have "view (clearAllMetrics advertising_state) (getAllAdvertisingMetrics advertising_state)
       = view advertising_state (getAllAdvertisingMetrics advertising_state)
   \<and> view (snd (startAdvertisingWithEnhancements android declining_driver sample_config
          ''session-1'' advertising_state)) (getAllAdvertisingMetrics advertising_state)
       = view advertising_state (getAllAdvertisingMetrics advertising_state)
   \<and> map_of (view (snd (stopAdvertisingWithEnhancements accepting_driver ''session-1''
          advertising_state)) (getAllAdvertisingMetrics advertising_state)) ''session-1''
       = Some (Some (?m\<lparr> stopTime := Some (now advertising_state),
            duration := now advertising_state - startTime ?m \<rparr>))"
    using a b c by blast
  then show ?thesis
    using advertising_state_refs_valid by (simp add: d)
qed

subsection \<open>Statistics\<close>

text \<open>
  \<^bold>\<open>C9.\<close> When the metrics map holds no record, the statistics are all zero, the average
  duration included: the division is guarded by the test on the number of sessions.
\<close>

theorem statistics_of_empty_store:
  "metrics st = [] \<Longrightarrow>
   getAdvertisingStatistics st =
     \<lparr> totalSessions = 0, successfulSessions = 0, failedSessions = 0, averageDuration = 0,
       totalRestarts = 0, payloadTransmissions = 0 \<rparr>"
  by (simp add: getAdvertisingStatistics_def)

theorem statistics_of_empty_store_witness:
  "metrics (initial_state 0) = []
   \<and> getAdvertisingStatistics (initial_state 0) =
     \<lparr> totalSessions = 0, successfulSessions = 0, failedSessions = 0, averageDuration = 0,
       totalRestarts = 0, payloadTransmissions = 0 \<rparr>"
proof -
  have h: "metrics (initial_state 0) = []" by (simp add: initial_state_def)
  from h statistics_of_empty_store [OF h] show ?thesis by simp
qed

subsection \<open>Restarting\<close>

text \<open>
  \<^bold>\<open>C5.\<close> For every session id, the restart operation reads the restart counter of the
  session (\<open>0\<close> when absent). When the counter has reached \<open>3\<close> it returns \<open>false\<close> and
  changes nothing, so the driver is not called. Otherwise it increments the counter, lets
  \<open>2000\<close> ms pass, runs the start operation in that state and returns its success; the
  driver sees exactly the calls of that start. Hence, however often the operation is
  invoked in a row, it adds at most \<open>3\<close> minus the counter calls of \<^verbatim>\<open>startBroadcast\<close>,
  and with a driver that never accepts every invocation returns \<open>false\<close>.
\<close>

theorem restart_budget:
  "(3 \<le> attempts_of st sessionId \<longrightarrow>
      restartAdvertisingIfNeeded rt advertiser config sessionId st = (False, st))
   \<and> (attempts_of st sessionId < 3 \<longrightarrow>
      fst (restartAdvertisingIfNeeded rt advertiser config sessionId st)
        = r_success (fst (startAdvertisingWithEnhancements rt advertiser config sessionId
            (backoff_state sessionId st)))
      \<and> calls (snd (restartAdvertisingIfNeeded rt advertiser config sessionId st))
        = calls (snd (startAdvertisingWithEnhancements rt advertiser config sessionId
            (backoff_state sessionId st)))
      \<and> attempts_of (backoff_state sessionId st) sessionId = attempts_of st sessionId + 1
      \<and> now (backoff_state sessionId st) = now st + 2000
      \<and> attempts_of (snd (restartAdvertisingIfNeeded rt advertiser config sessionId st))
           sessionId = attempts_of st sessionId + 1
      \<and> now (snd (restartAdvertisingIfNeeded rt advertiser config sessionId st))
           = now st + 2000)
   \<and> start_calls (snd (restart_repeatedly n rt advertiser config sessionId st))
        \<le> start_calls st + (3 - attempts_of st sessionId)
   \<and> (never_accepts advertiser \<longrightarrow>
        list_all (\<lambda>b. b = False) (fst (restart_repeatedly n rt advertiser config sessionId st)))"
proof -
  have 1: "restartAdvertisingIfNeeded rt advertiser config sessionId st = (False, st)"
    if "3 \<le> attempts_of st sessionId"
    using that by (simp add: restart_exhausted maxRestartAttempts_def)
  have 2: "fst (restartAdvertisingIfNeeded rt advertiser config sessionId st)
        = r_success (fst (startAdvertisingWithEnhancements rt advertiser config sessionId
            (backoff_state sessionId st)))
      \<and> calls (snd (restartAdvertisingIfNeeded rt advertiser config sessionId st))
        = calls (snd (startAdvertisingWithEnhancements rt advertiser config sessionId
            (backoff_state sessionId st)))
      \<and> attempts_of (backoff_state sessionId st) sessionId = attempts_of st sessionId + 1
      \<and> now (backoff_state sessionId st) = now st + 2000
      \<and> attempts_of (snd (restartAdvertisingIfNeeded rt advertiser config sessionId st))
           sessionId = attempts_of st sessionId + 1
      \<and> now (snd (restartAdvertisingIfNeeded rt advertiser config sessionId st))
           = now st + 2000"
    if "attempts_of st sessionId < 3"
  proof -
    from that have lt: "attempts_of st sessionId < maxRestartAttempts"
      by (simp add: maxRestartAttempts_def)
    have "now (backoff_state sessionId st) = now st + 2000"
      by (simp add: backoff_state_def restartDelay_def)
    with lt show ?thesis
      by (simp add: restart_attempt(1,2,4) attempts_backoff attempts_after_restart
          restartDelay_def)
  qed
  have 3: "start_calls (snd (restart_repeatedly n rt advertiser config sessionId st))
        \<le> start_calls st + (3 - attempts_of st sessionId)"
    using restart_repeatedly_bound [of n rt advertiser config sessionId st]
    by (simp add: maxRestartAttempts_def)
  have 4: "list_all (\<lambda>b. b = False) (fst (restart_repeatedly n rt advertiser config sessionId st))"
    if "never_accepts advertiser"
    using that restart_repeatedly_all_fail [of advertiser n rt config sessionId st]
    by (simp add: never_accepts_def)
  from 1 2 3 4 show ?thesis by blast
qed

theorem restart_budget_witness:
  "attempts_of (initial_state 0) ''session-1'' < 3
   \<and> never_accepts declining_driver
   \<and> fst (restart_repeatedly 5 android declining_driver sample_config ''session-1''
        (initial_state 0)) = [False, False, False, False, False]
   \<and> start_calls (snd (restart_repeatedly 5 android declining_driver sample_config
        ''session-1'' (initial_state 0))) = 3
   \<and> 3 \<le> attempts_of exhausted_state ''session-1''
   \<and> restartAdvertisingIfNeeded android declining_driver sample_config ''session-1''
        exhausted_state = (False, exhausted_state)
   \<and> fst (restartAdvertisingIfNeeded android accepting_driver sample_config ''session-1''
        (initial_state 0)) = True"
proof -
  have a: "attempts_of (initial_state 0) ''session-1'' < 3"
    by (simp add: attempts_of_def initial_state_def)
  have b: "never_accepts declining_driver"
    by (simp add: never_accepts_def declining_driver_def)
  have c: "3 \<le> attempts_of exhausted_state ''session-1''"
    by (simp add: attempts_of_def exhausted_state_def)
  have d: "r_success (fst (startAdvertisingWithEnhancements android accepting_driver
      sample_config ''session-1'' (backoff_state ''session-1'' (initial_state 0))))"
    by (simp add: startAdvertisingWithEnhancements_def Let_def valid_iff errors_validate
      sample_config_valid android_def sample_config_fields accepting_driver_def)
  from restart_budget [of exhausted_state "''session-1''" android declining_driver
      sample_config 5] c
  have e: "restartAdvertisingIfNeeded android declining_driver sample_config ''session-1''
        exhausted_state = (False, exhausted_state)"
    by blast
  from restart_budget [of "initial_state 0" "''session-1''" android accepting_driver
      sample_config 5] a d
  have f: "fst (restartAdvertisingIfNeeded android accepting_driver sample_config ''session-1''
        (initial_state 0)) = True"
    by simp
  have z: "start_calls (initial_state 0) = 0" "attempts_of (initial_state 0) ''session-1'' = 0"
    by (simp_all add: start_calls_def attempts_of_def initial_state_def)
  from restart_budget [of "initial_state 0" "''session-1''" android declining_driver
      sample_config 5] b
  have g: "start_calls (snd (restart_repeatedly 5 android declining_driver sample_config
        ''session-1'' (initial_state 0))) \<le> 3
    \<and> list_all (\<lambda>b. b = False) (fst (restart_repeatedly 5 android declining_driver
        sample_config ''session-1'' (initial_state 0)))"
    by (simp add: z)
  from a b c e f g five_restarts_declined show ?thesis
    by blast
qed

end
